theory Spec2Isabelle
  imports Main
begin

section \<open>Python strings\<close>

text \<open>
  A Python \<open>str\<close> is a sequence of Unicode code points, and every operation of the
  program (\<open>split\<close>, \<open>strip\<close>, \<open>replace\<close>, slicing, the \<open>re\<close> module) counts code
  points. A string is therefore a list of code points, each a natural number.
  Pure ASCII literals are written with \<open>ascii\<close>; the Vietnamese literals of the
  source are given by their code points.
\<close>

type_synonym uchar = nat
type_synonym ustring = "uchar list"

definition ascii :: "string \<Rightarrow> ustring" where
  "ascii s = map of_char s"

text \<open>The line break \<open>\n\<close> is code point 10.\<close>

definition NL :: uchar where
  "NL = 10"

text \<open>
  \<open>str.isspace\<close>, which decides what \<open>str.strip()\<close> removes and what \<open>\s\<close> matches in
  a \<open>str\<close> pattern: the 29 white-space code points of Unicode 14 (CPython 3.11).
\<close>

definition isspace :: "uchar \<Rightarrow> bool" where
  "isspace c \<longleftrightarrow>
     (9 \<le> c \<and> c \<le> 13) \<or> (28 \<le> c \<and> c \<le> 32) \<or> c = 133 \<or> c = 160 \<or> c = 5760 \<or>
     (8192 \<le> c \<and> c \<le> 8202) \<or> c = 8232 \<or> c = 8233 \<or> c = 8239 \<or> c = 8287 \<or> c = 12288"

text \<open>
  \<open>\d\<close> in a \<open>str\<close> pattern matches every character of category Nd. In Unicode 14
  these are 66 runs of ten consecutive code points; \<open>decimal_zeros\<close> lists the
  digit zero of every run.
\<close>

definition decimal_zeros :: "uchar list" where
  "decimal_zeros =
    [48, 1632, 1776, 1984, 2406, 2534, 2662, 2790, 2918, 3046, 3174, 3302, 3430, 3558,
     3664, 3792, 3872, 4160, 4240, 6112, 6160, 6470, 6608, 6784, 6800, 6992, 7088, 7232,
     7248, 42528, 43216, 43264, 43472, 43504, 43600, 44016, 65296, 66720, 68912, 69734,
     69872, 69942, 70096, 70384, 70736, 70864, 71248, 71360, 71472, 71904, 72016, 72784,
     73040, 73120, 92768, 92864, 93008, 120782, 120792, 120802, 120812, 120822, 123200,
     123632, 125264, 130032]"

definition isdecimal :: "uchar \<Rightarrow> bool" where
  "isdecimal c \<longleftrightarrow> list_ex (\<lambda>z. z \<le> c \<and> c < z + 10) decimal_zeros"

text \<open>\<open>s.strip(chars)\<close>: drop leading and trailing characters that occur in \<open>chars\<close>.\<close>

definition strip_chars :: "ustring \<Rightarrow> ustring \<Rightarrow> ustring" where
  "strip_chars chars s =
     rev (dropWhile (\<lambda>c. c \<in> set chars) (rev (dropWhile (\<lambda>c. c \<in> set chars) s)))"

text \<open>\<open>s.strip()\<close>: drop leading and trailing white space.\<close>

definition strip :: "ustring \<Rightarrow> ustring" where
  "strip s = rev (dropWhile isspace (rev (dropWhile isspace s)))"

text \<open>
  \<open>s.split(sep)\<close> for a separator of one character: the pieces between the
  separators, so \<open>n\<close> separators give \<open>n + 1\<close> pieces and the empty string gives one
  empty piece.
\<close>

fun split :: "uchar \<Rightarrow> ustring \<Rightarrow> ustring list" where
  "split sep [] = [[]]"
| "split sep (c # cs) =
     (if c = sep then [] # split sep cs
      else (case split sep cs of [] \<Rightarrow> [[c]] | l # ls \<Rightarrow> (c # l) # ls))"

text \<open>
  \<open>s.replace(old, new)\<close>: every occurrence of \<open>old\<close>, found from left to right
  without overlap, becomes \<open>new\<close>. With an empty \<open>old\<close> Python puts \<open>new\<close> before
  every character and at the end.
\<close>

function replace :: "ustring \<Rightarrow> ustring \<Rightarrow> ustring \<Rightarrow> ustring" where
  "replace old new s =
     (if old = [] then new @ concat (map (\<lambda>c. c # new) s)
      else if s = [] then []
      else if take (length old) s = old then new @ replace old new (drop (length old) s)
      else hd s # replace old new (tl s))"
  by pat_completeness auto
termination
  by (relation "measure (\<lambda>(old, new, s). length s)") auto

declare replace.simps [simp del]

section \<open>Regular expressions\<close>

text \<open>
  The patterns of the program use literals, character classes, \<open>\s\<close>, \<open>\d\<close>, \<open>.\<close>,
  the greedy quantifiers \<open>+\<close>, \<open>*\<close>, \<open>?\<close>, the lazy \<open>+?\<close>, alternation and \<open>$\<close>.
  Quantifiers other than \<open>?\<close> are only applied to a single character class.

  A character class is a list of inclusive code point ranges or one of the
  predefined classes. \<open>Dot\<close> is \<open>.\<close> without \<open>re.DOTALL\<close> (anything but the line
  break), \<open>DotAll\<close> is \<open>.\<close> under \<open>re.DOTALL\<close>.
\<close>

datatype cclass = OneOf "(uchar \<times> uchar) list" | Space | Decimal | Dot | DotAll

fun in_class :: "cclass \<Rightarrow> uchar \<Rightarrow> bool" where
  "in_class (OneOf rs) c = list_ex (\<lambda>(lo, hi). lo \<le> c \<and> c \<le> hi) rs"
| "in_class Space c = isspace c"
| "in_class Decimal c = isdecimal c"
| "in_class Dot c = (c \<noteq> NL)"
| "in_class DotAll c = True"

datatype regex =
    Chr cclass
  | Seq regex regex
  | Alt regex regex
  | Opt regex
  | Plus cclass
  | Star cclass
  | LazyPlus cclass
  | Eos
  | Eps

text \<open>
  \<open>greedy k s\<close>: the rests of \<open>s\<close> after one or more leading characters of class
  \<open>k\<close>, longest run first, which is the order in which a greedy quantifier
  tries them.
\<close>

fun greedy :: "cclass \<Rightarrow> ustring \<Rightarrow> ustring list" where
  "greedy k [] = []"
| "greedy k (c # cs) = (if in_class k c then greedy k cs @ [cs] else [])"

text \<open>
  \<open>ms r s\<close>: the rests of \<open>s\<close> after every way in which \<open>r\<close> matches a prefix of
  \<open>s\<close>, in the order in which Python's backtracking matcher tries them. The
  first rest that lets the remainder of a pattern succeed is the one Python
  takes. \<open>$\<close> (without \<open>re.MULTILINE\<close>) holds at the end of the string and just
  before a line break that ends the string.
\<close>

fun ms :: "regex \<Rightarrow> ustring \<Rightarrow> ustring list" where
  "ms (Chr k) s = (case s of [] \<Rightarrow> [] | c # cs \<Rightarrow> if in_class k c then [cs] else [])"
| "ms (Seq a b) s = concat (map (ms b) (ms a s))"
| "ms (Alt a b) s = ms a s @ ms b s"
| "ms (Opt a) s = ms a s @ [s]"
| "ms (Plus k) s = greedy k s"
| "ms (Star k) s = greedy k s @ [s]"
| "ms (LazyPlus k) s = rev (greedy k s)"
| "ms Eos s = (if s = [] \<or> s = [NL] then [s] else [])"
| "ms Eps s = [s]"

text \<open>A literal character, a literal string, and a sequence of patterns.\<close>

definition lit :: "uchar \<Rightarrow> regex" where
  "lit c = Chr (OneOf [(c, c)])"

definition cat :: "regex list \<Rightarrow> regex" where
  "cat rs = foldr Seq rs Eps"

definition lits :: "ustring \<Rightarrow> regex" where
  "lits s = cat (map lit s)"

text \<open>
  A pattern with groups is given as its consecutive segments. \<open>msegs\<close> returns,
  for every way of matching in the matcher's order, the rest of the input
  after each segment; \<open>re_match\<close> is \<open>pattern.match(s)\<close> and returns those of the
  first way. The text of a group is what lies between two rests.
\<close>

fun msegs :: "regex list \<Rightarrow> ustring \<Rightarrow> ustring list list" where
  "msegs [] s = [[]]"
| "msegs (r # rs) s = concat (map (\<lambda>s'. map ((#) s') (msegs rs s')) (ms r s))"

definition re_match :: "regex list \<Rightarrow> ustring \<Rightarrow> ustring list option" where
  "re_match segs s = (case msegs segs s of [] \<Rightarrow> None | b # _ \<Rightarrow> Some b)"

definition between :: "ustring \<Rightarrow> ustring \<Rightarrow> ustring" where
  "between s r = take (length s - length r) s"

text \<open>\<open>re.search(p, s)\<close> as a truth value: \<open>p\<close> matches at some position of \<open>s\<close>.\<close>

fun re_search :: "regex \<Rightarrow> ustring \<Rightarrow> bool" where
  "re_search p [] = (ms p [] \<noteq> [])"
| "re_search p (c # cs) = (ms p (c # cs) \<noteq> [] \<or> re_search p cs)"

text \<open>
  \<open>re.sub(p, "", s)\<close>: scanning from the left, the first match at the current
  position is deleted and the scan goes on behind it; where nothing matches
  (or only the empty string, which is replaced by nothing), the character is
  kept.
\<close>

function re_sub :: "regex \<Rightarrow> ustring \<Rightarrow> ustring" where
  "re_sub p s =
     (case s of [] \<Rightarrow> []
      | c # cs \<Rightarrow>
          (case ms p s of
             [] \<Rightarrow> c # re_sub p cs
           | r # _ \<Rightarrow> if length r < length s then re_sub p r else c # re_sub p cs))"
  by pat_completeness auto
termination
  by (relation "measure (\<lambda>(p, s). length s)") auto

declare re_sub.simps [simp del]

section \<open>Post-processing of a rendered article\<close>

text \<open>
  The patterns of the module-level loop of \<open>open_ai_indexing.py\<close> (the same in
  \<open>qwen3_indexing.py\<close> and \<open>tei_indexing.py\<close>). \<open>str_Muc\<close> is the word M, U+1EE5, c
  and a space. The class \<open>az_dj\<close> is \<open>a-z\<close> with U+0111, and \<open>d09\<close> is \<open>0-9\<close>. The
  unescaped \<open>.\<close> after the number is the wild card \<open>Dot\<close>.
\<close>

definition str_Muc :: ustring where
  "str_Muc = [77, 7909, 99, 32]"

definition az_dj :: cclass where
  "az_dj = OneOf [(97, 122), (273, 273)]"

definition d09 :: cclass where
  "d09 = OneOf [(48, 57)]"

text \<open>The marker: \<open>str_Muc\<close>, \<open>[0-9]+\<close>, \<open>[a-z\<close>U+0111\<open>]?\<close>, \<open>.\<close> and a space.\<close>

definition muc_marker :: regex where
  "muc_marker = cat [lits str_Muc, Plus d09, Opt (Chr az_dj), Chr Dot, lit 32]"

text \<open>The marker followed by \<open>.+?$\<close>, compiled without flags.\<close>

definition muc_tail :: regex where
  "muc_tail = cat [lits str_Muc, Plus d09, Opt (Chr az_dj), Chr Dot, lit 32, LazyPlus Dot, Eos]"

text \<open>
  \<open>str_Luat_nay\<close> is the two words L u U+1EAD t and n U+00E0 y, each followed by
  a space; \<open>str_da\<close> is U+0111 U+00E3 and a space; \<open>str_duoc_Quoc_hoi\<close> is the rest
  of the marker, three words. The middle word is optional.
\<close>

definition str_Luat_nay :: ustring where
  "str_Luat_nay = [76, 117, 7853, 116, 32, 110, 224, 121, 32]"

definition str_da :: ustring where
  "str_da = [273, 227, 32]"

definition str_duoc_Quoc_hoi :: ustring where
  "str_duoc_Quoc_hoi = [273, 432, 7907, 99, 32, 81, 117, 7889, 99, 32, 104, 7897, 105]"

definition luat_marker :: regex where
  "luat_marker = cat [lits str_Luat_nay, Opt (lits str_da), lits str_duoc_Quoc_hoi]"

text \<open>The same followed by \<open>.+?$\<close> under \<open>re.DOTALL\<close>.\<close>

definition luat_tail :: regex where
  "luat_tail =
     cat [lits str_Luat_nay, Opt (lits str_da), lits str_duoc_Quoc_hoi, LazyPlus DotAll, Eos]"

text \<open>
  \<^verbatim>\<open>
  if re.search(MUC_MARKER, content):
      content = re.sub(MUC_MARKER + ".+?$", "", content)
  if re.search(LUAT_MARKER, content):
      content = re.sub(LUAT_MARKER + ".+?$", "", content, flags=re.DOTALL)
  \<close>
\<close>

definition strip_muc :: "ustring \<Rightarrow> ustring" where
  "strip_muc content = (if re_search muc_marker content then re_sub muc_tail content else content)"

definition strip_luat :: "ustring \<Rightarrow> ustring" where
  "strip_luat content =
     (if re_search luat_marker content then re_sub luat_tail content else content)"

definition postprocess :: "ustring \<Rightarrow> ustring" where
  "postprocess content = strip_luat (strip_muc content)"

section \<open>The document tree\<close>

text \<open>
  \<open>parse_text\<close> builds nested dictionaries and lists. A dictionary with fixed
  keys is a record: \<open>{"Muc", "Content"}\<close>, \<open>{"Khoan", "Content", "Muc"}\<close>,
  \<open>{"Dieu", "Content", "Khoan"}\<close> and \<open>{"Chuong", "Dieu"}\<close> with the optional key
  \<open>"Content"\<close>, which only exists once free text has followed a chapter header.
  The root list holds chapter dictionaries and \<open>{"Preamble": text}\<close> dictionaries.
\<close>

record muc =
  m_Muc :: ustring
  m_Content :: ustring

record khoan =
  k_Khoan :: ustring
  k_Content :: ustring
  k_Muc :: "muc list"

record dieu =
  d_Dieu :: ustring
  d_Content :: ustring
  d_Khoan :: "khoan list"

record chuong =
  c_Chuong :: ustring
  c_Dieu :: "dieu list"
  c_Content :: "ustring option"

datatype element = Chapter chuong | Preamble ustring

section \<open>The line patterns\<close>

text \<open>
  Under \<open>re.IGNORECASE\<close> a letter of a \<open>str\<close> pattern matches every character
  whose simple lower-case mapping is the letter's, or is paired with it in the
  matcher's table of equivalent lower-case letters. For the letters of the two
  keywords that is the letter and its capital, and for \<open>i\<close> also U+0130 and
  U+0131.
\<close>

definition either :: "uchar \<Rightarrow> uchar \<Rightarrow> regex" where
  "either a b = Chr (OneOf [(a, a), (b, b)])"

definition any_i :: regex where
  "any_i = Chr (OneOf [(73, 73), (105, 105), (304, 305)])"

text \<open>The chapter keyword C h U+01B0 U+01A1 n g, ignoring case.\<close>

definition kw_Chuong :: regex where
  "kw_Chuong = cat [either 67 99, either 72 104, either 431 432, either 416 417,
                    either 78 110, either 71 103]"

text \<open>The article keyword U+0110 i U+1EC1 u, ignoring case.\<close>

definition kw_Dieu :: regex where
  "kw_Dieu = cat [either 272 273, any_i, either 7872 7873, either 85 117]"

text \<open>\<open>[IVXLCDM]\<close> under \<open>re.IGNORECASE\<close>: the seven letters in both cases, U+0130, U+0131.\<close>

definition roman_ic :: cclass where
  "roman_ic = OneOf [(67, 68), (73, 73), (76, 77), (86, 86), (88, 88), (99, 100),
                     (105, 105), (108, 109), (118, 118), (120, 120), (304, 305)]"

text \<open>
  \<open>[a-z\<close>U+0111\<open>]\<close> under \<open>re.IGNORECASE\<close>: the 52 ASCII letters, U+0110, U+0111 and
  the four letters U+0130, U+0131, U+017F, U+212A that lower-case into \<open>a-z\<close>.
\<close>

definition az_dj_ic :: cclass where
  "az_dj_ic = OneOf [(65, 90), (97, 122), (272, 273), (304, 305), (383, 383), (8490, 8490)]"

text \<open>\<open>[a-z\<close>U+0111\<open>A-Z\<close>U+0110\<open>]\<close>, no flags.\<close>

definition letter_class :: cclass where
  "letter_class = OneOf [(97, 122), (273, 273), (65, 90), (272, 272)]"

text \<open>
  The patterns of the source, with its non-ASCII letters written as \<open>\uXXXX\<close>.
  Each is split where a group starts or ends.
  \<^verbatim>\<open>CHUONG_PATTERN = re.compile(r"^Ch\u01b0\u01a1ng\s+([IVXLCDM]+|\d+)", re.IGNORECASE)\<close>
  \<^verbatim>\<open>DIEU_PATTERN = re.compile(r"^\u0110i\u1ec1u\s+(\d+[a-z\u0111]?)", re.IGNORECASE)\<close>
  \<^verbatim>\<open>KHOAN_PATTERN = re.compile(r"^(\d+)\.\s*(.*)")\<close>
  \<^verbatim>\<open>MUC_PATTERN = re.compile(r"^([a-z\u0111A-Z\u0110])\)\s*(.*)")\<close>
\<close>

definition CHUONG_PATTERN :: "regex list" where
  "CHUONG_PATTERN = [Seq kw_Chuong (Plus Space), Alt (Plus roman_ic) (Plus Decimal)]"

definition DIEU_PATTERN :: "regex list" where
  "DIEU_PATTERN = [Seq kw_Dieu (Plus Space), Seq (Plus Decimal) (Opt (Chr az_dj_ic))]"

definition KHOAN_PATTERN :: "regex list" where
  "KHOAN_PATTERN = [Plus Decimal, Seq (lit 46) (Star Space), Star Dot]"

definition MUC_PATTERN :: "regex list" where
  "MUC_PATTERN = [Chr letter_class, Seq (lit 41) (Star Space), Star Dot]"

text \<open>
  What the parser reads off a match: for an article header \<open>group(1)\<close> and
  \<open>line[match.end():]\<close>, for a clause or point header \<open>group(1)\<close> and \<open>group(2)\<close>.
\<close>

definition chuong_match :: "ustring \<Rightarrow> bool" where
  "chuong_match line = (re_match CHUONG_PATTERN line \<noteq> None)"

definition dieu_match :: "ustring \<Rightarrow> (ustring \<times> ustring) option" where
  "dieu_match line =
     (case re_match DIEU_PATTERN line of
        Some [r1, r2] \<Rightarrow> Some (between r1 r2, r2)
      | _ \<Rightarrow> None)"

definition khoan_match :: "ustring \<Rightarrow> (ustring \<times> ustring) option" where
  "khoan_match line =
     (case re_match KHOAN_PATTERN line of
        Some [r1, r2, r3] \<Rightarrow> Some (between line r1, between r2 r3)
      | _ \<Rightarrow> None)"

definition muc_match :: "ustring \<Rightarrow> (ustring \<times> ustring) option" where
  "muc_match line =
     (case re_match MUC_PATTERN line of
        Some [r1, r2, r3] \<Rightarrow> Some (between line r1, between r2 r3)
      | _ \<Rightarrow> None)"

section \<open>The parser state\<close>

text \<open>
  \<open>current_chuong\<close>, \<open>current_dieu\<close>, \<open>current_khoan\<close> and \<open>current_muc\<close> are \<open>None\<close> or
  refer to a dictionary that has been appended to a list of the tree. Such a
  reference is modelled by the place of that dictionary: its index in
  \<open>hierarchy\<close>, then in the \<open>"Dieu"\<close> list of that chapter, and so on. Nothing is
  ever removed from or inserted into a list except at its end, so a place
  keeps denoting the same dictionary. Writing through a reference changes the
  tree at that place.
\<close>

record pstate =
  hierarchy :: "element list"
  current_chuong :: "nat option"
  current_dieu :: "(nat \<times> nat) option"
  current_khoan :: "(nat \<times> nat \<times> nat) option"
  current_muc :: "(nat \<times> nat \<times> nat \<times> nat) option"

text \<open>
  \<open>KeyError\<close> and \<open>IndexError\<close> are what \<open>hierarchy[-1]["Preamble"]\<close> can raise.
  \<open>BadReference\<close> marks a place that leads to no dictionary of the tree; no
  run of the Python program is in such a state.
\<close>

datatype error = KeyError | IndexError | BadReference

definition nth_opt :: "'a list \<Rightarrow> nat \<Rightarrow> 'a option" where
  "nth_opt xs i = (if i < length xs then Some (xs ! i) else None)"

definition get_chuong :: "element list \<Rightarrow> nat \<Rightarrow> chuong option" where
  "get_chuong h i = (case nth_opt h i of Some (Chapter c) \<Rightarrow> Some c | _ \<Rightarrow> None)"

definition get_dieu :: "element list \<Rightarrow> nat \<times> nat \<Rightarrow> dieu option" where
  "get_dieu h p = (case p of (i, j) \<Rightarrow>
     (case get_chuong h i of None \<Rightarrow> None | Some c \<Rightarrow> nth_opt (c_Dieu c) j))"

definition get_khoan :: "element list \<Rightarrow> nat \<times> nat \<times> nat \<Rightarrow> khoan option" where
  "get_khoan h p = (case p of (i, j, k) \<Rightarrow>
     (case get_dieu h (i, j) of None \<Rightarrow> None | Some d \<Rightarrow> nth_opt (d_Khoan d) k))"

definition get_muc :: "element list \<Rightarrow> nat \<times> nat \<times> nat \<times> nat \<Rightarrow> muc option" where
  "get_muc h p = (case p of (i, j, k, l) \<Rightarrow>
     (case get_khoan h (i, j, k) of None \<Rightarrow> None | Some x \<Rightarrow> nth_opt (k_Muc x) l))"

definition set_chuong :: "element list \<Rightarrow> nat \<Rightarrow> chuong \<Rightarrow> element list" where
  "set_chuong h i c = h[i := Chapter c]"

definition set_dieu :: "element list \<Rightarrow> nat \<times> nat \<Rightarrow> dieu \<Rightarrow> element list" where
  "set_dieu h p d = (case p of (i, j) \<Rightarrow>
     (case get_chuong h i of None \<Rightarrow> h
      | Some c \<Rightarrow> set_chuong h i (c\<lparr>c_Dieu := (c_Dieu c)[j := d]\<rparr>)))"

definition set_khoan :: "element list \<Rightarrow> nat \<times> nat \<times> nat \<Rightarrow> khoan \<Rightarrow> element list" where
  "set_khoan h p x = (case p of (i, j, k) \<Rightarrow>
     (case get_dieu h (i, j) of None \<Rightarrow> h
      | Some d \<Rightarrow> set_dieu h (i, j) (d\<lparr>d_Khoan := (d_Khoan d)[k := x]\<rparr>)))"

definition set_muc :: "element list \<Rightarrow> nat \<times> nat \<times> nat \<times> nat \<Rightarrow> muc \<Rightarrow> element list" where
  "set_muc h p m = (case p of (i, j, k, l) \<Rightarrow>
     (case get_khoan h (i, j, k) of None \<Rightarrow> h
      | Some x \<Rightarrow> set_khoan h (i, j, k) (x\<lparr>k_Muc := (k_Muc x)[l := m]\<rparr>)))"

section \<open>parse\_text\<close>

text \<open>
  The branches of the loop body, in the order of the source. The first one is
  the chapter header:
  \<^verbatim>\<open>
  current_chuong = {"Chuong": chuong_title, "Dieu": []}
  hierarchy.append(current_chuong)
  current_dieu = None; current_khoan = None; current_muc = None
  \<close>
\<close>

definition new_chuong :: "pstate \<Rightarrow> ustring \<Rightarrow> pstate" where
  "new_chuong s title =
     s\<lparr>hierarchy := hierarchy s @ [Chapter \<lparr>c_Chuong = title, c_Dieu = [], c_Content = None\<rparr>],
       current_chuong := Some (length (hierarchy s)),
       current_dieu := None, current_khoan := None, current_muc := None\<rparr>"

text \<open>
  The article header. \<open>number\<close> is \<open>group(1)\<close> and \<open>rest\<close> is
  \<open>line[dieu_match.end():]\<close>; a default chapter is made first when none is open.
\<close>

definition dieu_content :: "ustring \<Rightarrow> ustring" where
  "dieu_content rest = strip (strip_chars (ascii ''. '') rest)"

definition new_dieu :: "pstate \<Rightarrow> ustring \<Rightarrow> ustring \<Rightarrow> error + pstate" where
  "new_dieu s number rest =
     (let d = \<lparr>d_Dieu = ascii ''Dieu '' @ number, d_Content = dieu_content rest, d_Khoan = []\<rparr>;
          s1 = (if current_chuong s = None
                then s\<lparr>hierarchy := hierarchy s @
                         [Chapter \<lparr>c_Chuong = ascii ''Chuong 0'', c_Dieu = [], c_Content = None\<rparr>],
                       current_chuong := Some (length (hierarchy s))\<rparr>
                else s)
      in case current_chuong s1 of
           None \<Rightarrow> Inl BadReference
         | Some i \<Rightarrow>
             (case get_chuong (hierarchy s1) i of
                None \<Rightarrow> Inl BadReference
              | Some c \<Rightarrow>
                  Inr (s1\<lparr>hierarchy := set_chuong (hierarchy s1) i (c\<lparr>c_Dieu := c_Dieu c @ [d]\<rparr>),
                          current_dieu := Some (i, length (c_Dieu c)),
                          current_khoan := None, current_muc := None\<rparr>)))"

text \<open>The clause header, taken only while an article is open (\<open>p\<close> is its place).\<close>

definition new_khoan :: "pstate \<Rightarrow> nat \<times> nat \<Rightarrow> ustring \<Rightarrow> ustring \<Rightarrow> error + pstate" where
  "new_khoan s p number content =
     (let x = \<lparr>k_Khoan = ascii ''Khoan '' @ number, k_Content = content, k_Muc = []\<rparr>
      in case get_dieu (hierarchy s) p of
           None \<Rightarrow> Inl BadReference
         | Some d \<Rightarrow>
             Inr (s\<lparr>hierarchy := set_dieu (hierarchy s) p (d\<lparr>d_Khoan := d_Khoan d @ [x]\<rparr>),
                    current_khoan := Some (fst p, snd p, length (d_Khoan d)),
                    current_muc := None\<rparr>))"

text \<open>The point header, taken only while a clause is open (\<open>p\<close> is its place).\<close>

definition new_muc :: "pstate \<Rightarrow> nat \<times> nat \<times> nat \<Rightarrow> ustring \<Rightarrow> ustring \<Rightarrow> error + pstate" where
  "new_muc s p letter content =
     (let m = \<lparr>m_Muc = ascii ''Muc '' @ letter, m_Content = content\<rparr>
      in case get_khoan (hierarchy s) p of
           None \<Rightarrow> Inl BadReference
         | Some x \<Rightarrow>
             Inr (s\<lparr>hierarchy := set_khoan (hierarchy s) p (x\<lparr>k_Muc := k_Muc x @ [m]\<rparr>),
                    current_muc := Some (fst p, fst (snd p), snd (snd p), length (k_Muc x))\<rparr>))"

text \<open>
  \<open>"Preamble" not in hierarchy\<close> compares the string with every element of the
  list. The elements are dictionaries, and a \<open>str\<close> is never equal to a \<open>dict\<close>.
\<close>

definition str_eq_dict :: "ustring \<Rightarrow> element \<Rightarrow> bool" where
  "str_eq_dict s e = False"

definition str_in_list :: "ustring \<Rightarrow> element list \<Rightarrow> bool" where
  "str_in_list s h = list_ex (str_eq_dict s) h"

text \<open>
  \<^verbatim>\<open>
  if "Preamble" not in hierarchy:
      hierarchy.append({"Preamble": line})
  else:
      hierarchy[-1]["Preamble"] += " " + line
  \<close>
\<close>

definition preamble_line :: "pstate \<Rightarrow> ustring \<Rightarrow> error + pstate" where
  "preamble_line s line =
     (if \<not> str_in_list (ascii ''Preamble'') (hierarchy s)
      then Inr (s\<lparr>hierarchy := hierarchy s @ [Preamble line]\<rparr>)
      else if hierarchy s = [] then Inl IndexError
      else (case last (hierarchy s) of
              Chapter c \<Rightarrow> Inl KeyError
            | Preamble t \<Rightarrow>
                Inr (s\<lparr>hierarchy := butlast (hierarchy s) @ [Preamble (t @ [32] @ line)]\<rparr>)))"

text \<open>
  A line that opens nothing is added, after a space, to the content of the
  innermost open dictionary. A dictionary with keys is true in a condition, so
  \<open>if current_muc:\<close> asks whether the reference is set.
\<close>

definition plain_line :: "pstate \<Rightarrow> ustring \<Rightarrow> error + pstate" where
  "plain_line s line =
     (case current_muc s of
        Some p \<Rightarrow>
          (case get_muc (hierarchy s) p of
             None \<Rightarrow> Inl BadReference
           | Some m \<Rightarrow>
               Inr (s\<lparr>hierarchy :=
                        set_muc (hierarchy s) p (m\<lparr>m_Content := m_Content m @ [32] @ line\<rparr>)\<rparr>))
      | None \<Rightarrow>
     (case current_khoan s of
        Some p \<Rightarrow>
          (case get_khoan (hierarchy s) p of
             None \<Rightarrow> Inl BadReference
           | Some x \<Rightarrow>
               Inr (s\<lparr>hierarchy :=
                        set_khoan (hierarchy s) p (x\<lparr>k_Content := k_Content x @ [32] @ line\<rparr>)\<rparr>))
      | None \<Rightarrow>
     (case current_dieu s of
        Some p \<Rightarrow>
          (case get_dieu (hierarchy s) p of
             None \<Rightarrow> Inl BadReference
           | Some d \<Rightarrow>
               Inr (s\<lparr>hierarchy :=
                        set_dieu (hierarchy s) p (d\<lparr>d_Content := d_Content d @ [32] @ line\<rparr>)\<rparr>))
      | None \<Rightarrow>
     (case current_chuong s of
        Some i \<Rightarrow>
          (case get_chuong (hierarchy s) i of
             None \<Rightarrow> Inl BadReference
           | Some c \<Rightarrow>
               Inr (s\<lparr>hierarchy :=
                        set_chuong (hierarchy s) i
                          (c\<lparr>c_Content :=
                               Some ((case c_Content c of None \<Rightarrow> [] | Some t \<Rightarrow> t) @ [32] @ line)\<rparr>)\<rparr>))
      | None \<Rightarrow> preamble_line s line))))"

text \<open>
  One pass of the loop body over one piece of \<open>text.split("\n")\<close>: strip, skip
  the empty line, then the first branch whose test holds.
\<close>

definition parse_line :: "pstate \<Rightarrow> ustring \<Rightarrow> error + pstate" where
  "parse_line s raw =
     (let line = strip raw in
      if line = [] then Inr s
      else if chuong_match line then Inr (new_chuong s line)
      else (case dieu_match line of
              Some (number, rest) \<Rightarrow> new_dieu s number rest
            | None \<Rightarrow>
      (case (khoan_match line, current_dieu s) of
         (Some (number, content), Some p) \<Rightarrow> new_khoan s p number content
       | _ \<Rightarrow>
      (case (muc_match line, current_khoan s) of
         (Some (letter, content), Some p) \<Rightarrow> new_muc s p letter content
       | _ \<Rightarrow> plain_line s line))))"

fun parse_lines :: "pstate \<Rightarrow> ustring list \<Rightarrow> error + pstate" where
  "parse_lines s [] = Inr s"
| "parse_lines s (raw # raws) =
     (case parse_line s raw of Inl e \<Rightarrow> Inl e | Inr s' \<Rightarrow> parse_lines s' raws)"

definition init :: pstate where
  "init = \<lparr>hierarchy = [], current_chuong = None, current_dieu = None,
           current_khoan = None, current_muc = None\<rparr>"

definition parse_text :: "ustring \<Rightarrow> error + element list" where
  "parse_text text =
     (case parse_lines init (split NL text) of Inl e \<Rightarrow> Inl e | Inr s \<Rightarrow> Inr (hierarchy s))"

section \<open>get\_text\_from\_structure\<close>

text \<open>
  The Vietnamese words of the output: the article keyword (U+0110 i U+1EC1 u),
  the clause keyword (K h o U+1EA3 n) with a space and the point keyword
  (U+0110 i U+1EC3 m) with a space.
\<close>

definition str_Dieu_vn :: ustring where
  "str_Dieu_vn = [272, 105, 7873, 117]"

definition str_Khoan_vn :: ustring where
  "str_Khoan_vn = [75, 104, 111, 7843, 110, 32]"

definition str_Diem_vn :: ustring where
  "str_Diem_vn = [272, 105, 7875, 109, 32]"

text \<open>
  The inner loop over \<open>khoan["Muc"]\<close>; \<open>content\<close> is the text built so far.
\<close>

fun muc_loop :: "ustring \<Rightarrow> ustring \<Rightarrow> muc list \<Rightarrow> ustring \<Rightarrow> ustring" where
  "muc_loop item_annotation item_prefix [] content = content"
| "muc_loop item_annotation item_prefix (m # mucs) content =
     muc_loop item_annotation item_prefix mucs
       (content @ replace (ascii ''Muc '') item_annotation (m_Muc m) @ ascii '') '' @
        item_prefix @ m_Content m @ [NL])"

text \<open>
  The outer loop over \<open>dieu["Khoan"]\<close>. \<open>item_prefix\<close> is assigned inside the loop
  when \<open>kdm\<close> holds and keeps its value otherwise, so it is carried along with
  \<open>content\<close>.
\<close>

text \<open>
  One pass of the outer loop body. \<open>label\<close> is
  \<open>khoan['Khoan'].replace('Khoan ', clause_annotation)\<close>, which the source writes
  out twice. \<open>khoan_item_prefix\<close> is the value of \<open>item_prefix\<close> after the
  conditional assignment, \<open>khoan_text\<close> the value of \<open>content\<close> after the clause line
  and the lines of its points.
\<close>

definition khoan_item_prefix :: "bool \<Rightarrow> ustring \<Rightarrow> ustring \<Rightarrow> ustring \<Rightarrow> ustring" where
  "khoan_item_prefix kdm clause_prefix label item_prefix =
     (if kdm then label @ ascii '' '' @ clause_prefix @ ascii '' '' else item_prefix)"

definition khoan_text ::
  "ustring \<Rightarrow> ustring \<Rightarrow> khoan \<Rightarrow> ustring \<Rightarrow> ustring \<Rightarrow> ustring \<Rightarrow> ustring" where
  "khoan_text item_annotation clause_prefix x label item_prefix content =
     (let content1 = content @ label @ ascii ''. '' @ clause_prefix @ k_Content x @ [NL]
      in if length (k_Muc x) > 0
         then muc_loop item_annotation item_prefix (k_Muc x) content1
         else content1)"

primrec khoan_loop ::
  "bool \<Rightarrow> ustring \<Rightarrow> ustring \<Rightarrow> ustring \<Rightarrow> khoan list \<Rightarrow> ustring \<Rightarrow> ustring \<Rightarrow> ustring \<times> ustring"
where
  "khoan_loop kdm clause_annotation item_annotation clause_prefix [] content item_prefix =
     (content, item_prefix)"
| "khoan_loop kdm clause_annotation item_annotation clause_prefix (x # khoans) content item_prefix =
     khoan_loop kdm clause_annotation item_annotation clause_prefix khoans
       (khoan_text item_annotation clause_prefix x
          (replace (ascii ''Khoan '') clause_annotation (k_Khoan x))
          (khoan_item_prefix kdm clause_prefix
             (replace (ascii ''Khoan '') clause_annotation (k_Khoan x)) item_prefix)
          content)
       (khoan_item_prefix kdm clause_prefix
          (replace (ascii ''Khoan '') clause_annotation (k_Khoan x)) item_prefix)"

definition get_text_from_structure :: "dieu \<Rightarrow> bool \<Rightarrow> ustring" where
  "get_text_from_structure d kdm =
     (let head = replace (ascii ''Dieu'') str_Dieu_vn (d_Dieu d);
          head = head @ ascii ''. '' @ d_Content d @ [NL];
          content = head;
          clause_annotation = (if kdm then str_Khoan_vn else []);
          item_annotation = (if kdm then str_Diem_vn else []);
          clause_prefix = (if kdm then replace (ascii ''Dieu'') str_Dieu_vn (d_Dieu d) @ ascii '' ''
                           else [])
      in fst (khoan_loop kdm clause_annotation item_annotation clause_prefix (d_Khoan d)
                content []))"

section \<open>The rendered text, line by line\<close>

text \<open>
  The lines of the rendered text as the specification describes them: a header
  line, then for every clause its line followed by the lines of its points.
  With citation expansion the clause line carries the article label, and a
  point line carries the label of its clause, a space, the clause prefix and
  one more space.
\<close>

definition article_label :: "dieu \<Rightarrow> ustring" where
  "article_label d = replace (ascii ''Dieu'') str_Dieu_vn (d_Dieu d)"

definition clause_label :: "bool \<Rightarrow> khoan \<Rightarrow> ustring" where
  "clause_label kdm x =
     replace (ascii ''Khoan '') (if kdm then str_Khoan_vn else []) (k_Khoan x)"

definition point_label :: "bool \<Rightarrow> muc \<Rightarrow> ustring" where
  "point_label kdm m = replace (ascii ''Muc '') (if kdm then str_Diem_vn else []) (m_Muc m)"

definition clause_prefix :: "bool \<Rightarrow> dieu \<Rightarrow> ustring" where
  "clause_prefix kdm d = (if kdm then article_label d @ ascii '' '' else [])"

definition point_prefix :: "bool \<Rightarrow> dieu \<Rightarrow> khoan \<Rightarrow> ustring" where
  "point_prefix kdm d x =
     (if kdm then clause_label kdm x @ ascii '' '' @ clause_prefix kdm d @ ascii '' '' else [])"

definition header_line :: "dieu \<Rightarrow> ustring" where
  "header_line d = article_label d @ ascii ''. '' @ d_Content d @ [NL]"

definition clause_line :: "bool \<Rightarrow> dieu \<Rightarrow> khoan \<Rightarrow> ustring" where
  "clause_line kdm d x =
     clause_label kdm x @ ascii ''. '' @ clause_prefix kdm d @ k_Content x @ [NL]"

definition point_line :: "bool \<Rightarrow> dieu \<Rightarrow> khoan \<Rightarrow> muc \<Rightarrow> ustring" where
  "point_line kdm d x m =
     point_label kdm m @ ascii '') '' @ point_prefix kdm d x @ m_Content m @ [NL]"

definition rendered_lines :: "bool \<Rightarrow> dieu \<Rightarrow> ustring list" where
  "rendered_lines kdm d =
     header_line d #
     concat (map (\<lambda>x. clause_line kdm d x # map (point_line kdm d x) (k_Muc x)) (d_Khoan d))"

text \<open>
  The article content as the specification words it: what follows the matched
  prefix, without leading dots and spaces and without trailing spaces.
\<close>

definition claimed_dieu_content :: "ustring \<Rightarrow> ustring" where
  "claimed_dieu_content rest =
     rev (dropWhile (\<lambda>c. c = 32) (rev (dropWhile (\<lambda>c. c = 46 \<or> c = 32) rest)))"

section \<open>The outline of a tree and the state invariant\<close>

text \<open>
  The nodes of a tree in document order: every chapter, followed by its
  articles, each followed by its clauses, each followed by its points. A node
  is given by its kind and the label stored in the dictionary. Preamble
  dictionaries are no nodes of the outline.
\<close>

datatype node = NChuong ustring | NDieu ustring | NKhoan ustring | NMuc ustring

definition outline_khoan :: "khoan \<Rightarrow> node list" where
  "outline_khoan x = NKhoan (k_Khoan x) # map (\<lambda>m. NMuc (m_Muc m)) (k_Muc x)"

definition outline_dieu :: "dieu \<Rightarrow> node list" where
  "outline_dieu d = NDieu (d_Dieu d) # concat (map outline_khoan (d_Khoan d))"

fun outline_element :: "element \<Rightarrow> node list" where
  "outline_element (Chapter c) = NChuong (c_Chuong c) # concat (map outline_dieu (c_Dieu c))"
| "outline_element (Preamble t) = []"

definition outline :: "element list \<Rightarrow> node list" where
  "outline h = concat (map outline_element h)"

text \<open>
  \<open>preambles_first\<close>: in the root list no Preamble dictionary comes after a
  chapter. \<open>preamble_texts\<close>: the texts of the Preamble dictionaries in order.
\<close>

fun is_chapter :: "element \<Rightarrow> bool" where
  "is_chapter (Chapter c) = True"
| "is_chapter (Preamble t) = False"

fun preambles_first :: "element list \<Rightarrow> bool" where
  "preambles_first [] = True"
| "preambles_first (Preamble t # es) = preambles_first es"
| "preambles_first (Chapter c # es) = list_all is_chapter es"

fun preamble_texts :: "element list \<Rightarrow> ustring list" where
  "preamble_texts [] = []"
| "preamble_texts (Chapter c # es) = preamble_texts es"
| "preamble_texts (Preamble t # es) = t # preamble_texts es"

text \<open>
  The nodes that one line of the input opens, read off the line and off which
  references are set before the line is processed: the tests are those of the
  loop body, in its order. \<open>trace\<close> collects them over a list of lines, from
  the first line to the last.
\<close>

definition line_nodes :: "pstate \<Rightarrow> ustring \<Rightarrow> node list" where
  "line_nodes s raw =
     (let line = strip raw in
      if line = [] then []
      else if chuong_match line then [NChuong line]
      else (case dieu_match line of
              Some (number, rest) \<Rightarrow>
                (if current_chuong s = None then [NChuong (ascii ''Chuong 0'')] else []) @
                [NDieu (ascii ''Dieu '' @ number)]
            | None \<Rightarrow>
      (case (khoan_match line, current_dieu s) of
         (Some (number, content), Some p) \<Rightarrow> [NKhoan (ascii ''Khoan '' @ number)]
       | _ \<Rightarrow>
      (case (muc_match line, current_khoan s) of
         (Some (letter, content), Some p) \<Rightarrow> [NMuc (ascii ''Muc '' @ letter)]
       | _ \<Rightarrow> []))))"

fun trace :: "pstate \<Rightarrow> ustring list \<Rightarrow> node list" where
  "trace s [] = []"
| "trace s (raw # raws) =
     line_nodes s raw @ (case parse_line s raw of Inl e \<Rightarrow> [] | Inr s' \<Rightarrow> trace s' raws)"

text \<open>
  The invariant of the loop: every reference that is set denotes the last
  element of its list, inside the dictionary that the next outer reference
  denotes; an inner reference is only set when the outer one is; as long as no
  chapter is open the root list holds no chapter; and the Preamble
  dictionaries come first.
\<close>

definition wf :: "pstate \<Rightarrow> bool" where
  "wf s \<longleftrightarrow>
     (case current_chuong s of
        None \<Rightarrow> current_dieu s = None \<and> \<not> list_ex is_chapter (hierarchy s)
      | Some i \<Rightarrow> Suc i = length (hierarchy s) \<and> get_chuong (hierarchy s) i \<noteq> None) \<and>
     (case current_dieu s of
        None \<Rightarrow> current_khoan s = None
      | Some (i, j) \<Rightarrow>
          current_chuong s = Some i \<and>
          (case get_chuong (hierarchy s) i of
             None \<Rightarrow> False | Some c \<Rightarrow> Suc j = length (c_Dieu c))) \<and>
     (case current_khoan s of
        None \<Rightarrow> current_muc s = None
      | Some (i, j, k) \<Rightarrow>
          current_dieu s = Some (i, j) \<and>
          (case get_dieu (hierarchy s) (i, j) of
             None \<Rightarrow> False | Some d \<Rightarrow> Suc k = length (d_Khoan d))) \<and>
     (case current_muc s of
        None \<Rightarrow> True
      | Some (i, j, k, l) \<Rightarrow>
          current_khoan s = Some (i, j, k) \<and>
          (case get_khoan (hierarchy s) (i, j, k) of
             None \<Rightarrow> False | Some x \<Rightarrow> Suc l = length (k_Muc x))) \<and>
     preambles_first (hierarchy s)"

text \<open>
  What a branch of the loop body guarantees when it starts in a state that
  satisfies the invariant: it raises nothing, keeps the invariant, extends the
  outline at its end by the given nodes, and, when a chapter is open, leaves it
  open and leaves the Preamble texts as they are.
\<close>

definition step_ok :: "pstate \<Rightarrow> error + pstate \<Rightarrow> node list \<Rightarrow> bool" where
  "step_ok s r ns =
     (case r of
        Inl e \<Rightarrow> False
      | Inr s' \<Rightarrow>
          wf s' \<and> outline (hierarchy s') = outline (hierarchy s) @ ns \<and>
          (current_chuong s = None \<or>
           current_chuong s' \<noteq> None \<and>
           preamble_texts (hierarchy s') = preamble_texts (hierarchy s)))"

section \<open>The scenarios of the specification\<close>

text \<open>
  The three-line document of the first scenario: an article header "1" with
  the inline content of two words, a clause "1." and a point "a)".
\<close>

definition scenario_text :: ustring where
  "scenario_text =
     [272, 105, 7873, 117, 32, 49, 46, 32, 80, 104, 7841, 109, 32, 118, 105, 10, 49, 46,
     32, 78, 7897, 105, 32, 100, 117, 110, 103, 32, 65, 10, 97, 41, 32, 67, 104, 105,
     32, 116, 105, 7871, 116]"

definition scenario_dieu :: dieu where
  "scenario_dieu =
     \<lparr>d_Dieu = ascii ''Dieu 1'', d_Content = [80, 104, 7841, 109, 32, 118, 105],
      d_Khoan =
        [\<lparr>k_Khoan = ascii ''Khoan 1'', k_Content = [78, 7897, 105, 32, 100, 117, 110, 103, 32, 65],
          k_Muc = [\<lparr>m_Muc = ascii ''Muc a'', m_Content = [67, 104, 105, 32, 116, 105, 7871, 116]\<rparr>]\<rparr>]\<rparr>"

text \<open>The text of the scenario followed by a line break.\<close>

definition scenario_rendered :: ustring where
  "scenario_rendered = scenario_text @ [NL]"

text \<open>Two plain lines "a" and "b" with nothing before them.\<close>

definition two_plain_lines :: ustring where
  "two_plain_lines = ascii ''a'' @ [NL] @ ascii ''b''"

text \<open>
  The second scenario: the clause line and the point line that the
  specification gives for the expanded rendering, and the point line without
  the dot after the clause label.
\<close>

definition claimed_clause_line :: ustring where
  "claimed_clause_line =
     [75, 104, 111, 7843, 110, 32, 49, 46, 32, 272, 105, 7873, 117, 32, 49, 32, 78, 7897,
     105, 32, 100, 117, 110, 103, 32, 65, 10]"

definition claimed_point_line :: ustring where
  "claimed_point_line =
     [272, 105, 7875, 109, 32, 97, 41, 32, 75, 104, 111, 7843, 110, 32, 49, 46, 32, 272,
     105, 7873, 117, 32, 49, 32, 32, 67, 104, 105, 32, 116, 105, 7871, 116, 10]"

definition actual_point_line :: ustring where
  "actual_point_line =
     [272, 105, 7875, 109, 32, 97, 41, 32, 75, 104, 111, 7843, 110, 32, 49, 32, 272, 105,
     7873, 117, 32, 49, 32, 32, 67, 104, 105, 32, 116, 105, 7871, 116, 10]"

text \<open>
  The third scenario: a text whose second and last line starts with the
  sub-heading marker, and the first line alone.
\<close>

definition muc_scenario :: ustring where
  "muc_scenario =
     [110, 7897, 105, 32, 100, 117, 110, 103, 10, 77, 7909, 99, 32, 50, 46, 32, 81, 117,
     121, 7873, 110, 32, 118, 224, 32, 110, 103, 104, 297, 97, 32, 118, 7909, 10]"

definition muc_scenario_claimed :: ustring where
  "muc_scenario_claimed = [110, 7897, 105, 32, 100, 117, 110, 103, 10]"

text \<open>
  A document whose article header is followed by a sub-heading line (the marker word, "2. B")
  and then by a clause "1. C"; the article it contains; its rendering.
\<close>

definition muc_document :: ustring where
  "muc_document =
     [272, 105, 7873, 117, 32, 49, 46, 32, 65, 10, 77, 7909, 99, 32, 50, 46, 32, 66, 10,
     49, 46, 32, 67]"

definition muc_dieu :: dieu where
  "muc_dieu =
     \<lparr>d_Dieu = ascii ''Dieu 1'', d_Content = [65, 32, 77, 7909, 99, 32, 50, 46, 32, 66],
      d_Khoan = [\<lparr>k_Khoan = ascii ''Khoan 1'', k_Content = ascii ''C'', k_Muc = []\<rparr>]\<rparr>"

definition muc_rendered :: ustring where
  "muc_rendered =
     [272, 105, 7873, 117, 32, 49, 46, 32, 65, 32, 77, 7909, 99, 32, 50, 46, 32, 66, 10,
     49, 46, 32, 67, 10]"

text \<open>The article header of the first scenario with a full stop at its end.\<close>

definition dotted_header :: ustring where
  "dotted_header = [272, 105, 7873, 117, 32, 49, 46, 32, 80, 104, 7841, 109, 32, 118, 105, 46]"

definition dotted_rest :: ustring where
  "dotted_rest = [46, 32, 80, 104, 7841, 109, 32, 118, 105, 46]"

definition dotted_content :: ustring where
  "dotted_content = [80, 104, 7841, 109, 32, 118, 105]"

text \<open>The state after the header line \<open>dotted_header\<close> alone, and a numbered line.\<close>

definition dotted_state :: pstate where
  "dotted_state =
     \<lparr>hierarchy =
        [Chapter \<lparr>c_Chuong = ascii ''Chuong 0'',
                  c_Dieu = [\<lparr>d_Dieu = ascii ''Dieu 1'', d_Content = dotted_content,
                             d_Khoan = []\<rparr>],
                  c_Content = None\<rparr>],
      current_chuong = Some 0, current_dieu = Some (0, 0), current_khoan = None,
      current_muc = None\<rparr>"

definition numbered_line :: ustring where
  "numbered_line = ascii ''1. a''"

text \<open>
  The sub-heading marker as the specification words it: the marker word, digits,
  an optional letter, a full stop and a space.
\<close>

definition claimed_muc_marker :: regex where
  "claimed_muc_marker = cat [lits str_Muc, Plus d09, Opt (Chr az_dj), lit 46, lit 32]"

text \<open>
  A document of one article header whose content refers to a section and a
  chapter ("... M\u1ee5c 1, Ch\u01b0\u01a1ng II"), the article it contains, its
  rendering, and the rendering cut before the marker word.
\<close>

definition xref_document :: ustring where
  "xref_document =
     [272, 105, 7873, 117, 32, 53, 46, 32, 84, 104, 101, 111, 32, 77, 7909, 99, 32, 49,
     44, 32, 67, 104, 432, 417, 110, 103, 32, 73, 73]"

definition xref_dieu :: dieu where
  "xref_dieu =
     \<lparr>d_Dieu = ascii ''Dieu 5'',
      d_Content = [84, 104, 101, 111, 32, 77, 7909, 99, 32, 49, 44, 32, 67, 104, 432,
                   417, 110, 103, 32, 73, 73],
      d_Khoan = []\<rparr>"

definition xref_rendered :: ustring where
  "xref_rendered = xref_document @ [NL]"

definition xref_cut :: ustring where
  "xref_cut = [272, 105, 7873, 117, 32, 53, 46, 32, 84, 104, 101, 111, 32, 10]"

text \<open>
  The state after one plain line "a" with nothing open, and the document of
  that line followed by the numbered line.
\<close>

definition preamble_state :: pstate where
  "preamble_state =
     \<lparr>hierarchy = [Preamble (ascii ''a'')], current_chuong = None, current_dieu = None,
      current_khoan = None, current_muc = None\<rparr>"

definition preamble_then_numbered :: ustring where
  "preamble_then_numbered = ascii ''a'' @ [NL] @ numbered_line"

section \<open>Auxiliary lemmas\<close>

subsection \<open>Unfolding the model on concrete inputs\<close>

lemmas str_defs = replace.simps re_sub.simps ascii_def NL_def str_Muc_def str_Luat_nay_def
  str_da_def str_duoc_Quoc_hoi_def str_Dieu_vn_def str_Khoan_vn_def str_Diem_vn_def

lemmas re_defs = lit_def cat_def lits_def either_def any_i_def kw_Chuong_def kw_Dieu_def
  roman_ic_def az_dj_ic_def letter_class_def az_dj_def d09_def CHUONG_PATTERN_def
  DIEU_PATTERN_def KHOAN_PATTERN_def MUC_PATTERN_def re_match_def between_def chuong_match_def
  dieu_match_def khoan_match_def muc_match_def muc_marker_def muc_tail_def luat_marker_def
  luat_tail_def isspace_def isdecimal_def decimal_zeros_def

lemmas parse_defs = parse_text_def init_def parse_line_def new_chuong_def new_dieu_def
  new_khoan_def new_muc_def plain_line_def preamble_line_def str_in_list_def str_eq_dict_def
  dieu_content_def strip_def strip_chars_def nth_opt_def get_chuong_def get_dieu_def
  get_khoan_def get_muc_def set_chuong_def set_dieu_def set_khoan_def set_muc_def

lemmas render_defs = get_text_from_structure_def khoan_text_def khoan_item_prefix_def

lemmas post_defs = postprocess_def strip_muc_def strip_luat_def

lemma scenario_parse:
  "parse_text scenario_text =
     Inr [Chapter \<lparr>c_Chuong = ascii ''Chuong 0'', c_Dieu = [scenario_dieu], c_Content = None\<rparr>]"
  by (simp add: scenario_text_def scenario_dieu_def str_defs re_defs parse_defs)

lemma scenario_render_plain:
  "get_text_from_structure scenario_dieu False = scenario_rendered"
  by (simp add: scenario_rendered_def scenario_text_def scenario_dieu_def str_defs render_defs)

subsection \<open>The two loops of the renderer\<close>

lemma muc_loop_eq:
  "muc_loop ia ip mucs content =
     content @
     concat (map (\<lambda>m. replace (ascii ''Muc '') ia (m_Muc m) @ ascii '') '' @ ip @
                       m_Content m @ [NL]) mucs)"
  by (induction mucs arbitrary: content) simp_all

lemma khoan_text_eq:
  "khoan_text ia cp x label ip content =
     content @ label @ ascii ''. '' @ cp @ k_Content x @ [NL] @
     concat (map (\<lambda>m. replace (ascii ''Muc '') ia (m_Muc m) @ ascii '') '' @ ip @
                       m_Content m @ [NL]) (k_Muc x))"
  by (simp add: khoan_text_def muc_loop_eq Let_def)

lemma khoan_item_prefix_idem:
  "khoan_item_prefix kdm cp l (khoan_item_prefix kdm cp l' ip) = khoan_item_prefix kdm cp l ip"
  by (simp add: khoan_item_prefix_def)

lemma khoan_loop_eq:
  "fst (khoan_loop kdm ca ia cp xs content ip) =
     content @
     concat (map (\<lambda>x. khoan_text ia cp x (replace (ascii ''Khoan '') ca (k_Khoan x))
                         (khoan_item_prefix kdm cp (replace (ascii ''Khoan '') ca (k_Khoan x)) ip)
                         []) xs)"
proof (induction xs arbitrary: content ip)
  case Nil
  show ?case by simp
next
  case (Cons x xs)
  show ?case
    by (simp add: Cons.IH khoan_item_prefix_idem khoan_text_eq)
qed

lemma concat_blocks:
  "concat (concat (map (\<lambda>x. f x # map (g x) (h x)) xs)) =
   concat (map (\<lambda>x. f x @ concat (map (g x) (h x))) xs)"
  by (induction xs) simp_all

lemma render_eq: "get_text_from_structure d kdm = concat (rendered_lines kdm d)"
  by (cases kdm)
     (simp_all add: get_text_from_structure_def khoan_loop_eq khoan_text_eq rendered_lines_def
        concat_blocks header_line_def clause_line_def point_line_def [abs_def] point_prefix_def
        clause_prefix_def clause_label_def point_label_def article_label_def
        khoan_item_prefix_def Let_def)

lemmas line_defs = rendered_lines_def header_line_def clause_line_def point_line_def
  point_prefix_def clause_prefix_def clause_label_def point_label_def article_label_def

subsection \<open>References to last elements\<close>

lemma get_chuong_snoc: "get_chuong (h @ [Chapter c]) (length h) = Some c"
  by (simp add: get_chuong_def nth_opt_def)

lemma get_dieu_set_chuong:
  "get_chuong h i = Some c \<Longrightarrow>
   get_dieu (set_chuong h i (c\<lparr>c_Dieu := c_Dieu c @ [d]\<rparr>)) (i, length (c_Dieu c)) = Some d"
  by (auto simp: get_chuong_def get_dieu_def set_chuong_def nth_opt_def
           split: if_splits option.splits element.splits)

lemma dotted_parse_line:
  "parse_line init dotted_header =
     Inr \<lparr>hierarchy =
            [Chapter \<lparr>c_Chuong = ascii ''Chuong 0'',
                      c_Dieu = [\<lparr>d_Dieu = ascii ''Dieu 1'', d_Content = dotted_content,
                                 d_Khoan = []\<rparr>],
                      c_Content = None\<rparr>],
          current_chuong = Some 0, current_dieu = Some (0, 0), current_khoan = None,
          current_muc = None\<rparr>"
  by (simp add: dotted_header_def dotted_content_def str_defs re_defs parse_defs)

lemma dotted_match: "dieu_match dotted_header = Some (ascii ''1'', dotted_rest)"
  by (simp add: dotted_header_def dotted_rest_def str_defs re_defs)

lemma nth_opt_snoc [simp]: "nth_opt (xs @ [x]) (length xs) = Some x"
  by (simp add: nth_opt_def)

lemma get_chuong_last [simp]: "get_chuong (hs @ [Chapter c]) (length hs) = Some c"
  by (simp add: get_chuong_def)

lemma set_chuong_snoc [simp]: "set_chuong (hs @ [e]) (length hs) c = hs @ [Chapter c]"
  by (simp add: set_chuong_def)

lemma get_dieu_snoc [simp]: "get_dieu (hs @ [Chapter c]) (length hs, j) = nth_opt (c_Dieu c) j"
  by (simp add: get_dieu_def)

lemma set_dieu_snoc [simp]:
  "set_dieu (hs @ [Chapter c]) (length hs, j) d = hs @ [Chapter (c\<lparr>c_Dieu := (c_Dieu c)[j := d]\<rparr>)]"
  by (simp add: set_dieu_def)

lemma get_khoan_snoc [simp]:
  "get_khoan (hs @ [Chapter c]) (length hs, j, k) =
     (case nth_opt (c_Dieu c) j of None \<Rightarrow> None | Some d \<Rightarrow> nth_opt (d_Khoan d) k)"
  by (simp add: get_khoan_def)

lemma set_khoan_snoc [simp]:
  "set_khoan (hs @ [Chapter c]) (length hs, j, k) x =
     (case nth_opt (c_Dieu c) j of
        None \<Rightarrow> hs @ [Chapter c]
      | Some d \<Rightarrow>
          hs @ [Chapter (c\<lparr>c_Dieu := (c_Dieu c)[j := d\<lparr>d_Khoan := (d_Khoan d)[k := x]\<rparr>]\<rparr>)])"
  by (simp add: set_khoan_def split: option.splits)

lemma get_muc_snoc [simp]:
  "get_muc (hs @ [Chapter c]) (length hs, j, k, l) =
     (case nth_opt (c_Dieu c) j of
        None \<Rightarrow> None
      | Some d \<Rightarrow> (case nth_opt (d_Khoan d) k of None \<Rightarrow> None | Some x \<Rightarrow> nth_opt (k_Muc x) l))"
  by (simp add: get_muc_def split: option.splits)

lemma set_muc_snoc [simp]:
  "set_muc (hs @ [Chapter c]) (length hs, j, k, l) m =
     (case nth_opt (c_Dieu c) j of
        None \<Rightarrow> hs @ [Chapter c]
      | Some d \<Rightarrow>
          (case nth_opt (d_Khoan d) k of
             None \<Rightarrow> hs @ [Chapter c]
           | Some x \<Rightarrow>
               hs @ [Chapter (c\<lparr>c_Dieu :=
                   (c_Dieu c)[j := d\<lparr>d_Khoan := (d_Khoan d)[k := x\<lparr>k_Muc := (k_Muc x)[l := m]\<rparr>]\<rparr>]\<rparr>)]))"
  by (simp add: set_muc_def split: option.splits)

subsection \<open>The invariant and the branches of the loop body\<close>

lemma snoc_shape: "Suc n = length xs \<Longrightarrow> \<exists>ys y. xs = ys @ [y] \<and> n = length ys"
  by (cases xs rule: rev_cases) auto

lemma wf_chuongD:
  assumes "wf s" "current_chuong s = Some i"
  shows "\<exists>hs c. hierarchy s = hs @ [Chapter c] \<and> i = length hs"
proof -
  from assms have a: "Suc i = length (hierarchy s)" and b: "get_chuong (hierarchy s) i \<noteq> None"
    by (auto simp: wf_def)
  from snoc_shape [OF a] obtain hs e where h: "hierarchy s = hs @ [e]" "i = length hs" by blast
  with b show ?thesis by (cases e) (auto simp: get_chuong_def)
qed

lemma wf_dieuD:
  assumes "wf s" "current_dieu s = Some (i, j)"
  shows "\<exists>hs c ds d. hierarchy s = hs @ [Chapter c] \<and> i = length hs \<and> c_Dieu c = ds @ [d] \<and>
           j = length ds \<and> current_chuong s = Some i"
proof -
  from assms have cc: "current_chuong s = Some i" by (auto simp: wf_def)
  from wf_chuongD [OF assms(1) cc] obtain hs c where h: "hierarchy s = hs @ [Chapter c]" "i = length hs"
    by blast
  from assms h have "Suc j = length (c_Dieu c)" by (auto simp: wf_def)
  from snoc_shape [OF this] h cc show ?thesis by blast
qed

lemma wf_khoanD:
  assumes "wf s" "current_khoan s = Some (i, j, k)"
  shows "\<exists>hs c ds d ks x. hierarchy s = hs @ [Chapter c] \<and> i = length hs \<and> c_Dieu c = ds @ [d] \<and>
           j = length ds \<and> d_Khoan d = ks @ [x] \<and> k = length ks \<and>
           current_chuong s = Some i \<and> current_dieu s = Some (i, j)"
proof -
  from assms have cd: "current_dieu s = Some (i, j)" by (auto simp: wf_def)
  from wf_dieuD [OF assms(1) cd] obtain hs c ds d where
    h: "hierarchy s = hs @ [Chapter c]" "i = length hs" "c_Dieu c = ds @ [d]" "j = length ds"
       "current_chuong s = Some i"
    by blast
  from assms h have "Suc k = length (d_Khoan d)" by (auto simp: wf_def)
  from snoc_shape [OF this] h cd show ?thesis by blast
qed

lemma wf_mucD:
  assumes "wf s" "current_muc s = Some (i, j, k, l)"
  shows "\<exists>hs c ds d ks x ms m. hierarchy s = hs @ [Chapter c] \<and> i = length hs \<and>
           c_Dieu c = ds @ [d] \<and> j = length ds \<and> d_Khoan d = ks @ [x] \<and> k = length ks \<and>
           k_Muc x = ms @ [m] \<and> l = length ms \<and>
           current_chuong s = Some i \<and> current_dieu s = Some (i, j) \<and> current_khoan s = Some (i, j, k)"
proof -
  from assms have ck: "current_khoan s = Some (i, j, k)" by (auto simp: wf_def)
  from wf_khoanD [OF assms(1) ck] obtain hs c ds d ks x where
    h: "hierarchy s = hs @ [Chapter c]" "i = length hs" "c_Dieu c = ds @ [d]" "j = length ds"
       "d_Khoan d = ks @ [x]" "k = length ks" "current_chuong s = Some i" "current_dieu s = Some (i, j)"
    by blast
  from assms h have "Suc l = length (k_Muc x)" by (auto simp: wf_def)
  from snoc_shape [OF this] h ck show ?thesis by blast
qed

lemma preambles_first_snoc_chapter [simp]:
  "preambles_first (hs @ [Chapter c]) = preambles_first hs"
  by (induction hs rule: preambles_first.induct) simp_all

lemma preambles_first_snoc_preamble:
  "\<not> list_ex is_chapter hs \<Longrightarrow> preambles_first (hs @ [Preamble t])"
  by (induction hs rule: preambles_first.induct) simp_all

lemma preamble_texts_append [simp]:
  "preamble_texts (xs @ ys) = preamble_texts xs @ preamble_texts ys"
  by (induction xs rule: preamble_texts.induct) simp_all

lemma outline_snoc [simp]: "outline (hs @ [e]) = outline hs @ outline_element e"
  by (simp add: outline_def)

lemma wf_init: "wf init"
  by (simp add: wf_def init_def)

lemma wf_new_chuong:
  assumes "wf s"
  shows "step_ok s (Inr (new_chuong s t)) [NChuong t]"
  using assms by (simp add: step_ok_def wf_def new_chuong_def)

lemma wf_new_dieu:
  assumes "wf s"
  shows "step_ok s (new_dieu s number rest)
           ((if current_chuong s = None then [NChuong (ascii ''Chuong 0'')] else []) @
            [NDieu (ascii ''Dieu '' @ number)])"
proof (cases "current_chuong s")
  case None
  with assms show ?thesis
    by (simp add: step_ok_def wf_def new_dieu_def Let_def outline_dieu_def)
next
  case (Some i)
  from wf_chuongD [OF assms Some] obtain hs c where
    h: "hierarchy s = hs @ [Chapter c]" "i = length hs" by blast
  with assms Some show ?thesis
    by (simp add: step_ok_def wf_def new_dieu_def Let_def outline_dieu_def)
qed

lemma wf_new_khoan:
  assumes "wf s" "current_dieu s = Some p"
  shows "step_ok s (new_khoan s p number content) [NKhoan (ascii ''Khoan '' @ number)]"
proof -
  obtain i j where p: "p = (i, j)" by (cases p)
  from wf_dieuD [OF assms(1) assms(2) [unfolded p]] obtain hs c ds d where
    h: "hierarchy s = hs @ [Chapter c]" "i = length hs" "c_Dieu c = ds @ [d]" "j = length ds"
       "current_chuong s = Some i" by blast
  with assms p show ?thesis
    by (simp add: step_ok_def wf_def new_khoan_def Let_def outline_dieu_def outline_khoan_def)
qed

lemma wf_new_muc:
  assumes "wf s" "current_khoan s = Some p"
  shows "step_ok s (new_muc s p letter content) [NMuc (ascii ''Muc '' @ letter)]"
proof -
  obtain i j k where p: "p = (i, j, k)" by (cases p)
  from wf_khoanD [OF assms(1) assms(2) [unfolded p]] obtain hs c ds d ks x where
    h: "hierarchy s = hs @ [Chapter c]" "i = length hs" "c_Dieu c = ds @ [d]" "j = length ds"
       "d_Khoan d = ks @ [x]" "k = length ks" "current_chuong s = Some i" "current_dieu s = Some (i, j)"
    by blast
  with assms p show ?thesis
    by (simp add: step_ok_def wf_def new_muc_def Let_def outline_dieu_def outline_khoan_def)
qed

lemma wf_plain_line:
  assumes "wf s"
  shows "step_ok s (plain_line s line) []"
proof (cases "current_muc s")
  case (Some p)
  obtain i j k l where p: "p = (i, j, k, l)" by (cases p)
  from wf_mucD [OF assms Some [unfolded p]] obtain hs c ds d ks x ms m where
    h: "hierarchy s = hs @ [Chapter c]" "i = length hs" "c_Dieu c = ds @ [d]" "j = length ds"
       "d_Khoan d = ks @ [x]" "k = length ks" "k_Muc x = ms @ [m]" "l = length ms"
       "current_chuong s = Some i" "current_dieu s = Some (i, j)" "current_khoan s = Some (i, j, k)"
    by blast
  with assms Some p show ?thesis
    by (simp add: step_ok_def wf_def plain_line_def outline_dieu_def outline_khoan_def)
next
  case mNone: None
  show ?thesis
  proof (cases "current_khoan s")
    case (Some p)
    obtain i j k where p: "p = (i, j, k)" by (cases p)
    from wf_khoanD [OF assms Some [unfolded p]] obtain hs c ds d ks x where
      h: "hierarchy s = hs @ [Chapter c]" "i = length hs" "c_Dieu c = ds @ [d]" "j = length ds"
         "d_Khoan d = ks @ [x]" "k = length ks" "current_chuong s = Some i" "current_dieu s = Some (i, j)"
      by blast
    with assms Some p mNone show ?thesis
      by (simp add: step_ok_def wf_def plain_line_def outline_dieu_def outline_khoan_def)
  next
    case kNone: None
    show ?thesis
    proof (cases "current_dieu s")
      case (Some p)
      obtain i j where p: "p = (i, j)" by (cases p)
      from wf_dieuD [OF assms Some [unfolded p]] obtain hs c ds d where
        h: "hierarchy s = hs @ [Chapter c]" "i = length hs" "c_Dieu c = ds @ [d]" "j = length ds"
           "current_chuong s = Some i" by blast
      with assms Some p mNone kNone show ?thesis
        by (simp add: step_ok_def wf_def plain_line_def outline_dieu_def outline_khoan_def)
    next
      case dNone: None
      show ?thesis
      proof (cases "current_chuong s")
        case (Some i)
        from wf_chuongD [OF assms Some] obtain hs c where
          h: "hierarchy s = hs @ [Chapter c]" "i = length hs" by blast
        with assms Some mNone kNone dNone show ?thesis
          by (simp add: step_ok_def wf_def plain_line_def)
      next
        case None
        with assms mNone kNone dNone show ?thesis
          by (simp add: step_ok_def wf_def plain_line_def preamble_line_def str_in_list_def
                str_eq_dict_def preambles_first_snoc_preamble list_ex_iff)
      qed
    qed
  qed
qed

lemma step_ok_same: "wf s \<Longrightarrow> step_ok s (Inr s) []"
  by (cases "current_chuong s") (simp_all add: step_ok_def)

lemma wf_parse_line:
  assumes "wf s"
  shows "step_ok s (parse_line s raw) (line_nodes s raw)"
proof (cases "strip raw = []")
  case True
  with assms show ?thesis
    by (simp add: parse_line_def line_nodes_def step_ok_same)
next
  case ne: False
  show ?thesis
  proof (cases "chuong_match (strip raw)")
    case True
    with ne have "parse_line s raw = Inr (new_chuong s (strip raw))"
      and "line_nodes s raw = [NChuong (strip raw)]"
      by (simp_all add: parse_line_def line_nodes_def)
    then show ?thesis
      by (simp only: wf_new_chuong [OF assms])
  next
    case nc: False
    show ?thesis
    proof (cases "dieu_match (strip raw)")
      case (Some a)
      obtain n r where a: "a = (n, r)" by (cases a)
      from ne nc Some a have "parse_line s raw = new_dieu s n r"
        and "line_nodes s raw =
               (if current_chuong s = None then [NChuong (ascii ''Chuong 0'')] else []) @
               [NDieu (ascii ''Dieu '' @ n)]"
        by (simp_all add: parse_line_def line_nodes_def)
      then show ?thesis
        by (simp only: wf_new_dieu [OF assms])
    next
      case nd: None
      show ?thesis
      proof (cases "\<exists>n c p. khoan_match (strip raw) = Some (n, c) \<and> current_dieu s = Some p")
        case True
        then obtain n c p where k: "khoan_match (strip raw) = Some (n, c)" "current_dieu s = Some p"
          by blast
        with ne nc nd have "parse_line s raw = new_khoan s p n c"
          and "line_nodes s raw = [NKhoan (ascii ''Khoan '' @ n)]"
          by (simp_all add: parse_line_def line_nodes_def)
        then show ?thesis
          by (simp only: wf_new_khoan [OF assms k(2)])
      next
        case nk: False
        show ?thesis
        proof (cases "\<exists>l c p. muc_match (strip raw) = Some (l, c) \<and> current_khoan s = Some p")
          case True
          then obtain l c p where m: "muc_match (strip raw) = Some (l, c)" "current_khoan s = Some p"
            by blast
          with ne nc nd nk have "parse_line s raw = new_muc s p l c"
            and "line_nodes s raw = [NMuc (ascii ''Muc '' @ l)]"
            by (auto simp: parse_line_def line_nodes_def Let_def split: option.splits prod.splits)
          then show ?thesis
            by (simp only: wf_new_muc [OF assms m(2)])
        next
          case nm: False
          with ne nc nd nk have "parse_line s raw = plain_line s (strip raw)"
            and "line_nodes s raw = []"
            by (auto simp: parse_line_def line_nodes_def Let_def split: option.splits prod.splits)
          then show ?thesis
            by (simp only: wf_plain_line [OF assms])
        qed
      qed
    qed
  qed
qed

lemma wf_parse_lineD:
  assumes "wf s"
  shows "\<exists>s'. parse_line s raw = Inr s' \<and> wf s' \<and>
           outline (hierarchy s') = outline (hierarchy s) @ line_nodes s raw \<and>
           (current_chuong s = None \<or>
            current_chuong s' \<noteq> None \<and>
            preamble_texts (hierarchy s') = preamble_texts (hierarchy s))"
  using wf_parse_line [OF assms, of raw]
  by (cases "parse_line s raw") (simp_all add: step_ok_def)

lemma wf_parse_lines:
  assumes "wf s"
  shows "\<exists>s'. parse_lines s raws = Inr s' \<and> wf s' \<and>
           outline (hierarchy s') = outline (hierarchy s) @ trace s raws"
  using assms
proof (induction raws arbitrary: s)
  case Nil
  then show ?case by simp
next
  case (Cons raw raws)
  from wf_parse_lineD [OF Cons.prems, of raw] obtain s1 where
    s1: "parse_line s raw = Inr s1" "wf s1"
        "outline (hierarchy s1) = outline (hierarchy s) @ line_nodes s raw"
    by blast
  from Cons.IH [OF s1(2)] obtain s2 where
    s2: "parse_lines s1 raws = Inr s2" "wf s2"
        "outline (hierarchy s2) = outline (hierarchy s1) @ trace s1 raws"
    by blast
  from s1 s2 show ?case by simp
qed

lemma parse_lines_append:
  "parse_lines s (pre @ post) =
     (case parse_lines s pre of Inl e \<Rightarrow> Inl e | Inr s' \<Rightarrow> parse_lines s' post)"
  by (induction pre arbitrary: s) (simp_all split: sum.splits)

lemma reachable_wf: "parse_lines init pre = Inr s \<Longrightarrow> wf s"
  using wf_parse_lines [OF wf_init, of pre] by auto

subsection \<open>First characters of header lines\<close>

lemma isdecimal_bounds: "isdecimal c \<Longrightarrow> (48 \<le> c \<and> c \<le> 57) \<or> 1632 \<le> c"
  by (auto simp: isdecimal_def decimal_zeros_def)

lemma letter_bounds: "in_class letter_class c \<Longrightarrow> 65 \<le> c \<and> c \<le> 273"
  by (auto simp: letter_class_def)

lemma ms_lit: "ms (lit a) s = (case s of [] \<Rightarrow> [] | b # bs \<Rightarrow> if b = a then [bs] else [])"
  by (auto simp: lit_def split: list.splits)

lemma khoan_match_first:
  assumes "khoan_match line \<noteq> None"
  shows "\<exists>c cs. line = c # cs \<and> isdecimal c"
proof (cases line)
  case Nil
  with assms show ?thesis
    by (simp add: khoan_match_def re_match_def KHOAN_PATTERN_def)
next
  case (Cons c cs)
  with assms show ?thesis
    by (cases "isdecimal c") (simp_all add: khoan_match_def re_match_def KHOAN_PATTERN_def)
qed

lemma muc_match_first:
  assumes "muc_match line \<noteq> None"
  shows "\<exists>c cs. line = c # 41 # cs \<and> in_class letter_class c"
proof (cases line)
  case Nil
  with assms show ?thesis
    by (simp add: muc_match_def re_match_def MUC_PATTERN_def)
next
  case (Cons c cs)
  note l = Cons
  show ?thesis
  proof (cases cs)
    case Nil
    with assms l show ?thesis
      by (cases "in_class letter_class c")
         (simp_all add: muc_match_def re_match_def MUC_PATTERN_def ms_lit)
  next
    case (Cons b bs)
    with assms l show ?thesis
      by (cases "in_class letter_class c"; cases "b = 41")
         (simp_all add: muc_match_def re_match_def MUC_PATTERN_def ms_lit)
  qed
qed

lemma decimal_line_other:
  assumes "isdecimal c"
  shows "\<not> chuong_match (c # cs)" and "dieu_match (c # cs) = None" and "muc_match (c # cs) = None"
proof -
  from isdecimal_bounds [OF assms] have b: "(48 \<le> c \<and> c \<le> 57) \<or> 1632 \<le> c" .
  then show "\<not> chuong_match (c # cs)"
    by (auto simp: chuong_match_def re_match_def CHUONG_PATTERN_def kw_Chuong_def cat_def either_def)
  from b show "dieu_match (c # cs) = None"
    by (auto simp: dieu_match_def re_match_def DIEU_PATTERN_def kw_Dieu_def cat_def either_def)
  from b show "muc_match (c # cs) = None"
    by (auto simp: muc_match_def re_match_def MUC_PATTERN_def letter_class_def)
qed

lemma point_line_other:
  assumes "in_class letter_class c"
  shows "\<not> chuong_match (c # 41 # cs)" and "dieu_match (c # 41 # cs) = None"
    and "khoan_match (c # 41 # cs) = None"
proof -
  show "\<not> chuong_match (c # 41 # cs)"
    by (simp add: chuong_match_def re_match_def CHUONG_PATTERN_def kw_Chuong_def cat_def either_def)
  show "dieu_match (c # 41 # cs) = None"
    by (simp add: dieu_match_def re_match_def DIEU_PATTERN_def kw_Dieu_def cat_def either_def any_i_def)
  from letter_bounds [OF assms] isdecimal_bounds [of c] have "\<not> isdecimal c" by auto
  then show "khoan_match (c # 41 # cs) = None"
    by (simp add: khoan_match_def re_match_def KHOAN_PATTERN_def)
qed

lemma unpromoted_is_plain:
  assumes "khoan_match (strip raw) \<noteq> None \<and> current_dieu s = None \<or>
           muc_match (strip raw) \<noteq> None \<and> current_khoan s = None"
  shows "parse_line s raw = plain_line s (strip raw) \<and> line_nodes s raw = []"
  using assms
proof
  assume a: "khoan_match (strip raw) \<noteq> None \<and> current_dieu s = None"
  with khoan_match_first obtain c cs where l: "strip raw = c # cs" "isdecimal c" by blast
  from a l decimal_line_other [OF l(2), of cs] show ?thesis
    by (auto simp: parse_line_def line_nodes_def Let_def split: option.splits)
next
  assume a: "muc_match (strip raw) \<noteq> None \<and> current_khoan s = None"
  with muc_match_first obtain c cs where l: "strip raw = c # 41 # cs" "in_class letter_class c"
    by blast
  from a l point_line_other [OF l(2), of cs] show ?thesis
    by (auto simp: parse_line_def line_nodes_def Let_def split: option.splits)
qed

lemma dotted_parse_lines: "parse_lines init [dotted_header] = Inr dotted_state"
  by (simp add: dotted_parse_line dotted_state_def)

subsection \<open>Properties of the code as written\<close>

text \<open>
  Both substitutions are guarded by a search for the pattern of the source,
  whose unescaped dot matches any character: where neither search succeeds the
  text is returned as it is.
\<close>

lemma postprocess_guarded:
  assumes "\<not> re_search muc_marker content" and "\<not> re_search luat_marker content"
  shows "postprocess content = content"
  using assms by (simp add: postprocess_def strip_muc_def strip_luat_def)

text \<open>
  In a state reached by parsing any lines, a line that matches the clause
  pattern while no article is open, or the point pattern while no clause is
  open, takes the step of a plain line and opens no node.
\<close>

lemma no_promotion_step:
  assumes "parse_lines init pre = Inr s"
    and "khoan_match (strip raw) \<noteq> None \<and> current_dieu s = None \<or>
         muc_match (strip raw) \<noteq> None \<and> current_khoan s = None"
  shows "\<exists>s'. parse_line s raw = Inr s' \<and> plain_line s (strip raw) = Inr s' \<and>
              outline (hierarchy s') = outline (hierarchy s)"
  using wf_plain_line [OF reachable_wf [OF assms(1)], of "strip raw"]
    unpromoted_is_plain [OF assms(2)]
  by (cases "plain_line s (strip raw)") (simp_all add: step_ok_def)

text \<open>
  Where such a line goes while something is open: a clause-pattern line with a
  chapter but no article open is added to the free content of the chapter; a
  point-pattern line with an article but no clause open is added to the content
  of the article.
\<close>

lemma unpromoted_to_chapter:
  assumes "parse_lines init pre = Inr s"
    and "khoan_match (strip raw) \<noteq> None" and "current_dieu s = None"
    and "current_chuong s = Some i"
  shows "\<exists>c. get_chuong (hierarchy s) i = Some c \<and>
           parse_line s raw =
             Inr (s\<lparr>hierarchy := set_chuong (hierarchy s) i
                    (c\<lparr>c_Content :=
                         Some ((case c_Content c of None \<Rightarrow> [] | Some t \<Rightarrow> t) @ [32] @ strip raw)\<rparr>)\<rparr>)"
proof -
  from reachable_wf [OF assms(1)] assms(3,4) have
    w: "current_khoan s = None" "current_muc s = None" "get_chuong (hierarchy s) i \<noteq> None"
    by (auto simp: wf_def split: option.splits)
  then obtain c where c: "get_chuong (hierarchy s) i = Some c" by blast
  from unpromoted_is_plain [of raw s] assms(2,3) have "parse_line s raw = plain_line s (strip raw)"
    by blast
  with w c assms(3,4) show ?thesis
    by (simp add: plain_line_def)
qed

lemma unpromoted_to_article:
  assumes "parse_lines init pre = Inr s"
    and "muc_match (strip raw) \<noteq> None" and "current_khoan s = None"
    and "current_dieu s = Some p"
  shows "\<exists>d. get_dieu (hierarchy s) p = Some d \<and>
           parse_line s raw =
             Inr (s\<lparr>hierarchy := set_dieu (hierarchy s) p
                    (d\<lparr>d_Content := d_Content d @ [32] @ strip raw\<rparr>)\<rparr>)"
proof -
  obtain i j where p: "p = (i, j)" by (cases p)
  from reachable_wf [OF assms(1)] have wf: "wf s" .
  from wf assms(3) have m: "current_muc s = None" by (auto simp: wf_def)
  from wf_dieuD [OF wf assms(4) [unfolded p]] obtain hs c ds d where
    h: "hierarchy s = hs @ [Chapter c]" "i = length hs" "c_Dieu c = ds @ [d]" "j = length ds"
    by blast
  then have d: "get_dieu (hierarchy s) p = Some d" by (simp add: p)
  from unpromoted_is_plain [of raw s] assms(2,3) have "parse_line s raw = plain_line s (strip raw)"
    by blast
  with m d assms(3,4) show ?thesis
    by (simp add: plain_line_def)
qed

section \<open>Properties\<close>

text \<open>
  C2 (violated by the code). The claim: the root list holds at most one
  Preamble node, to which later plain lines are appended. The test
  \<open>"Preamble" not in hierarchy\<close> is always true, so every plain line read before
  the first chapter or article is appended as a Preamble node of its own: the
  two lines "a" and "b" give two Preamble nodes.
\<close>

theorem C2_two_preamble_nodes:
  "parse_text two_plain_lines = Inr [Preamble (ascii ''a''), Preamble (ascii ''b'')]"
  by (simp add: two_plain_lines_def str_defs re_defs parse_defs)

text \<open>
  C4 (violated by the code). The claim: a rendered text that holds neither the
  sub-heading marker (marker word, digits, optional letter, full stop, space)
  nor the enactment marker is returned unchanged. The pattern of the source has
  an unescaped dot where the full stop is meant, so a comma after the number
  matches as well: the rendering of the article of \<open>xref_document\<close> holds
  neither marker, and the post-processing cuts it before the marker word.
\<close>

theorem C4_unescaped_dot_cuts:
  "parse_text xref_document =
     Inr [Chapter \<lparr>c_Chuong = ascii ''Chuong 0'', c_Dieu = [xref_dieu], c_Content = None\<rparr>] \<and>
   get_text_from_structure xref_dieu False = xref_rendered \<and>
   \<not> re_search claimed_muc_marker xref_rendered \<and>
   \<not> re_search luat_marker xref_rendered \<and>
   postprocess xref_rendered = xref_cut \<and>
   xref_cut \<noteq> xref_rendered"
proof -
  have a: "parse_text xref_document =
     Inr [Chapter \<lparr>c_Chuong = ascii ''Chuong 0'', c_Dieu = [xref_dieu], c_Content = None\<rparr>]"
    by (simp add: xref_document_def xref_dieu_def str_defs re_defs parse_defs)
  have b: "get_text_from_structure xref_dieu False = xref_rendered"
    by (simp add: xref_rendered_def xref_document_def xref_dieu_def str_defs render_defs)
  have c: "\<not> re_search claimed_muc_marker xref_rendered"
    by (simp add: claimed_muc_marker_def xref_rendered_def xref_document_def str_defs re_defs)
  have d: "\<not> re_search luat_marker xref_rendered"
    by (simp add: xref_rendered_def xref_document_def str_defs re_defs)
  have e: "postprocess xref_rendered = xref_cut"
    by (simp add: xref_rendered_def xref_document_def xref_cut_def str_defs re_defs post_defs)
  have f: "xref_cut \<noteq> xref_rendered"
    by (simp add: xref_rendered_def xref_document_def xref_cut_def)
  from a b c d e f show ?thesis by blast
qed

text \<open>
  C6. Parsing the scenario text gives one default chapter "Chuong 0" with one
  article "Dieu 1" whose content is the rest of the header line, one clause
  "Khoan 1" and one point "Muc a", each with the rest of its line as content;
  rendering that article without citation expansion gives the three lines of
  the input, each ended by a line break.
\<close>

theorem C6_scenario:
  "parse_text scenario_text =
     Inr [Chapter \<lparr>c_Chuong = ascii ''Chuong 0'', c_Dieu = [scenario_dieu], c_Content = None\<rparr>] \<and>
   d_Dieu scenario_dieu = ascii ''Dieu 1'' \<and>
   d_Content scenario_dieu = [80, 104, 7841, 109, 32, 118, 105] \<and>
   map k_Khoan (d_Khoan scenario_dieu) = [ascii ''Khoan 1''] \<and>
   map k_Content (d_Khoan scenario_dieu) = [[78, 7897, 105, 32, 100, 117, 110, 103, 32, 65]] \<and>
   map (map m_Muc \<circ> k_Muc) (d_Khoan scenario_dieu) = [[ascii ''Muc a'']] \<and>
   map (map m_Content \<circ> k_Muc) (d_Khoan scenario_dieu) = [[[67, 104, 105, 32, 116, 105, 7871, 116]]] \<and>
   get_text_from_structure scenario_dieu False = scenario_text @ [NL]"
  using scenario_parse scenario_render_plain
  by (simp add: scenario_dieu_def scenario_rendered_def)

text \<open>
  C1 (as stated, violated). The claim gives the point line of the second
  scenario with a dot after the clause label. The rendering of the scenario
  article with citation expansion is not the header line followed by the
  claimed clause line and the claimed point line.
\<close>

theorem C1_point_line_counterexample:
  "get_text_from_structure scenario_dieu True \<noteq>
     header_line scenario_dieu @ claimed_clause_line @ claimed_point_line"
  by (simp add: render_defs header_line_def article_label_def scenario_dieu_def
        claimed_clause_line_def claimed_point_line_def str_defs)

text \<open>
  C1 (amended). For every article, the rendering with citation expansion is the
  header line, then for each clause the line "label. prefix content" followed
  by one line "label) point-prefix content" per point, where the point prefix
  is the clause label, a space, the clause prefix (article label and space) and
  a space. For the scenario the clause line is the claimed one, and the point
  line has no dot after the clause label.
\<close>

theorem C1_expanded_lines:
  "get_text_from_structure d True = concat (rendered_lines True d) \<and>
   point_prefix True d x = clause_label True x @ ascii '' '' @ clause_prefix True d @ ascii '' '' \<and>
   rendered_lines True scenario_dieu =
     [header_line scenario_dieu, claimed_clause_line, actual_point_line]"
proof -
  have "rendered_lines True scenario_dieu =
          [header_line scenario_dieu, claimed_clause_line, actual_point_line]"
    by (simp add: line_defs scenario_dieu_def claimed_clause_line_def actual_point_line_def
          str_defs)
  then show ?thesis
    by (simp add: render_eq point_prefix_def)
qed

text \<open>
  C3 (violated by the code). The claim: a text that contains the sub-heading
  marker is cut at the first marker, later lines included. The substitution
  has no \<open>re.DOTALL\<close> and ends at \<open>$\<close>: the rendering of the article of
  \<open>muc_document\<close> contains the marker on its first line and is returned
  unchanged, and the text of the third scenario keeps the line break that
  follows the deleted line.
\<close>

theorem C3_marker_not_cut:
  "parse_text muc_document =
     Inr [Chapter \<lparr>c_Chuong = ascii ''Chuong 0'', c_Dieu = [muc_dieu], c_Content = None\<rparr>] \<and>
   get_text_from_structure muc_dieu False = muc_rendered \<and>
   re_search muc_marker muc_rendered \<and>
   postprocess muc_rendered = muc_rendered \<and>
   re_search muc_marker muc_scenario \<and>
   postprocess muc_scenario = muc_scenario_claimed @ [NL]"
proof -
  have a: "parse_text muc_document =
     Inr [Chapter \<lparr>c_Chuong = ascii ''Chuong 0'', c_Dieu = [muc_dieu], c_Content = None\<rparr>]"
    by (simp add: muc_document_def muc_dieu_def str_defs re_defs parse_defs)
  have b: "get_text_from_structure muc_dieu False = muc_rendered"
    by (simp add: muc_rendered_def muc_dieu_def str_defs render_defs)
  have c: "re_search muc_marker muc_rendered"
    by (simp add: muc_rendered_def str_defs re_defs)
  have d: "postprocess muc_rendered = muc_rendered"
    by (simp add: muc_rendered_def str_defs re_defs post_defs)
  have e: "re_search muc_marker muc_scenario"
    by (simp add: muc_scenario_def str_defs re_defs)
  have f: "postprocess muc_scenario = muc_scenario_claimed @ [NL]"
    by (simp add: muc_scenario_def muc_scenario_claimed_def str_defs re_defs post_defs)
  from a b c d e f show ?thesis by blast
qed

text \<open>
  C7 (as stated, violated). The header line of the first scenario with a full
  stop at its end is an article header; the content stored for it has lost the
  final full stop, which the claim keeps.
\<close>

theorem C7_trailing_dot_counterexample:
  "dieu_match dotted_header = Some (ascii ''1'', dotted_rest) \<and>
   parse_line init dotted_header =
     Inr \<lparr>hierarchy =
            [Chapter \<lparr>c_Chuong = ascii ''Chuong 0'',
                      c_Dieu = [\<lparr>d_Dieu = ascii ''Dieu 1'', d_Content = dotted_content,
                                 d_Khoan = []\<rparr>],
                      c_Content = None\<rparr>],
          current_chuong = Some 0, current_dieu = Some (0, 0), current_khoan = None,
          current_muc = None\<rparr> \<and>
   claimed_dieu_content dotted_rest \<noteq> dotted_content"
  using dotted_match dotted_parse_line
  by (simp add: claimed_dieu_content_def dotted_rest_def dotted_content_def)

text \<open>
  C7 (amended). For every line taken as an article header, in every state, the
  new article is the open one and its content is what follows the matched
  keyword and number, with the leading and the trailing dots and spaces removed
  and then the leading and trailing white space removed.
\<close>

theorem C7_dieu_content:
  assumes "strip raw = line" and "line \<noteq> []" and "\<not> chuong_match line"
    and "dieu_match line = Some (number, rest)"
    and "parse_line s raw = Inr s'"
  shows "(case current_dieu s' of
            None \<Rightarrow> False
          | Some p \<Rightarrow>
              get_dieu (hierarchy s') p =
                Some \<lparr>d_Dieu = ascii ''Dieu '' @ number,
                      d_Content = strip (strip_chars (ascii ''. '') rest), d_Khoan = []\<rparr>)"
proof -
  from assms have nd: "new_dieu s number rest = Inr s'"
    by (simp add: parse_line_def Let_def)
  show ?thesis
  proof (cases "current_chuong s")
    case None
    with nd show ?thesis
      using get_dieu_set_chuong [OF get_chuong_snoc, of "hierarchy s"
              "\<lparr>c_Chuong = ascii ''Chuong 0'', c_Dieu = [], c_Content = None\<rparr>"]
      by (auto simp: new_dieu_def Let_def dieu_content_def get_chuong_snoc)
  next
    case (Some i)
    with nd obtain c where c: "get_chuong (hierarchy s) i = Some c"
      by (auto simp: new_dieu_def Let_def split: option.splits)
    with nd Some show ?thesis
      by (auto simp: new_dieu_def Let_def dieu_content_def get_dieu_set_chuong)
  qed
qed

theorem C7_dieu_content_witness:
  "strip dotted_header = dotted_header \<and> dotted_header \<noteq> [] \<and> \<not> chuong_match dotted_header \<and>
   dieu_match dotted_header = Some (ascii ''1'', dotted_rest) \<and>
   (case parse_line init dotted_header of
      Inl e \<Rightarrow> False
    | Inr s' \<Rightarrow>
        (case current_dieu s' of
           None \<Rightarrow> False
         | Some p \<Rightarrow>
             get_dieu (hierarchy s') p =
               Some \<lparr>d_Dieu = ascii ''Dieu '' @ ascii ''1'',
                     d_Content = strip (strip_chars (ascii ''. '') dotted_rest), d_Khoan = []\<rparr>))"
proof -
  have a: "strip dotted_header = dotted_header"
    by (simp add: dotted_header_def strip_def isspace_def)
  have b: "dotted_header \<noteq> []"
    by (simp add: dotted_header_def)
  have c: "\<not> chuong_match dotted_header"
    by (simp add: dotted_header_def str_defs re_defs)
  note d = dotted_match
  note e = dotted_parse_line
  from C7_dieu_content [OF a b c d e] a b c d show ?thesis
    unfolding e by simp
qed

text \<open>
  C5 (violated by the code). The claim: a line that matches the clause pattern
  while no article is open creates no clause and is appended as plain content
  to the innermost open ancestor or to the Preamble. After the plain line "a"
  nothing is open and the root list holds the Preamble node of "a". The
  numbered line that follows matches the clause pattern and opens no node, but
  it is not appended to that Preamble node: it becomes a second Preamble node.
\<close>

theorem C5_numbered_line_second_preamble:
  "parse_lines init [ascii ''a''] = Inr preamble_state \<and>
   khoan_match (strip numbered_line) \<noteq> None \<and>
   current_dieu preamble_state = None \<and>
   parse_line preamble_state numbered_line =
     Inr (preamble_state\<lparr>hierarchy := [Preamble (ascii ''a''), Preamble numbered_line]\<rparr>) \<and>
   parse_text preamble_then_numbered = Inr [Preamble (ascii ''a''), Preamble numbered_line]"
proof -
  have a: "parse_lines init [ascii ''a''] = Inr preamble_state"
    by (simp add: preamble_state_def str_defs re_defs parse_defs)
  have b: "khoan_match (strip numbered_line) \<noteq> None"
    by (simp add: numbered_line_def str_defs re_defs strip_def)
  have c: "current_dieu preamble_state = None"
    by (simp add: preamble_state_def)
  have d: "parse_line preamble_state numbered_line =
     Inr (preamble_state\<lparr>hierarchy := [Preamble (ascii ''a''), Preamble numbered_line]\<rparr>)"
    by (simp add: preamble_state_def numbered_line_def str_defs re_defs parse_defs)
  have e: "parse_text preamble_then_numbered =
     Inr [Preamble (ascii ''a''), Preamble numbered_line]"
    by (simp add: preamble_then_numbered_def numbered_line_def str_defs re_defs parse_defs)
  from a b c d e show ?thesis by blast
qed

text \<open>
  C8. For every input string, the empty one included, \<open>parse_text\<close> returns a
  tree: no run reaches one of the failure branches.
\<close>

theorem C8_parse_total: "(\<exists>t. parse_text text = Inr t) \<and> parse_text [] = Inr []"
proof -
  have "\<exists>t. parse_text text = Inr t"
    using wf_parse_lines [OF wf_init, of "split NL text"]
    by (auto simp: parse_text_def)
  moreover have "parse_text [] = Inr []"
    by (simp add: parse_defs NL_def isspace_def)
  ultimately show ?thesis by blast
qed

text \<open>
  C9. The outline of the parsed tree is the list of the nodes that the lines
  open, taken in the order of the lines; and the outline after any first part
  of the lines is continued at its end by the nodes of the lines that follow.
  Chapters, the articles of a chapter, the clauses of an article and the
  points of a clause therefore stand in the order of their header lines, and
  every header line that opens a node has its own node.
\<close>

theorem C9_source_order:
  "(\<exists>t. parse_text text = Inr t \<and> outline t = trace init (split NL text)) \<and>
   (\<exists>s1 s2. parse_lines init pre = Inr s1 \<and> parse_lines init (pre @ post) = Inr s2 \<and>
      outline (hierarchy s2) = outline (hierarchy s1) @ trace s1 post)"
proof -
  have a: "\<exists>t. parse_text text = Inr t \<and> outline t = trace init (split NL text)"
    using wf_parse_lines [OF wf_init, of "split NL text"]
    by (auto simp: parse_text_def init_def outline_def)
  from wf_parse_lines [OF wf_init, of pre] obtain s1 where
    s1: "parse_lines init pre = Inr s1" "wf s1" by blast
  from wf_parse_lines [OF s1(2), of post] obtain s2 where
    s2: "parse_lines s1 post = Inr s2"
        "outline (hierarchy s2) = outline (hierarchy s1) @ trace s1 post"
    by blast
  from s1 s2 have "parse_lines init (pre @ post) = Inr s2"
    by (simp add: parse_lines_append)
  with a s1 s2 show ?thesis by blast
qed

text \<open>
  C10. In a state reached by parsing any lines in which a chapter is open, the
  next line is processed without failure, a chapter is open afterwards, and the
  Preamble texts of the root list are the same as before. For every input the
  root list of the result has its Preamble nodes before all chapters.
\<close>

theorem C10_preamble_closed:
  assumes "parse_lines init pre = Inr s" and "current_chuong s \<noteq> None"
  shows "(\<exists>s'. parse_line s raw = Inr s' \<and> current_chuong s' \<noteq> None \<and>
               preamble_texts (hierarchy s') = preamble_texts (hierarchy s)) \<and>
         (\<exists>t. parse_text text = Inr t \<and> preambles_first t)"
proof -
  have a: "\<exists>t. parse_text text = Inr t \<and> preambles_first t"
    using wf_parse_lines [OF wf_init, of "split NL text"]
    by (auto simp: parse_text_def wf_def)
  have b: "\<exists>s'. parse_line s raw = Inr s' \<and> current_chuong s' \<noteq> None \<and>
            preamble_texts (hierarchy s') = preamble_texts (hierarchy s)"
    using wf_parse_lineD [OF reachable_wf [OF assms(1)], of raw] assms(2) by blast
  from a b show ?thesis by blast
qed

theorem C10_preamble_closed_witness:
  "parse_lines init [dotted_header] = Inr dotted_state \<and> current_chuong dotted_state \<noteq> None \<and>
   (\<exists>s'. parse_line dotted_state numbered_line = Inr s' \<and> current_chuong s' \<noteq> None \<and>
         preamble_texts (hierarchy s') = preamble_texts (hierarchy dotted_state)) \<and>
   (\<exists>t. parse_text two_plain_lines = Inr t \<and> preambles_first t)"
proof -
  note a = dotted_parse_lines
  have b: "current_chuong dotted_state \<noteq> None"
    by (simp add: dotted_state_def)
  from C10_preamble_closed [OF a b, of numbered_line two_plain_lines] a b show ?thesis
    by blast
qed

end
